theory Spec2Isabelle
  imports Main "HOL-Library.AList"
begin

section \<open>The transaction manager of the producer\<close>

text \<open>
  A shallow embedding of \<^verbatim>\<open>src/producer/transactionManager.js\<close>. The module exports a
  factory; the five variables it closes over (\<^verbatim>\<open>producerId\<close>, \<^verbatim>\<open>producerEpoch\<close>,
  \<^verbatim>\<open>producerSequence\<close>, \<^verbatim>\<open>transactionTopicPartitions\<close>, \<^verbatim>\<open>currentState\<close>) are the fields of
  the record \<open>tm_state\<close>, which every operation takes and returns. The collaborators
  (\<^verbatim>\<open>cluster\<close>, the broker it resolves) are outside the module: their answers are the
  fields of the record \<open>env\<close>, and every call made to them is logged as an event.
\<close>

subsection \<open>JavaScript objects used as dictionaries\<close>

text \<open>
  A plain object is an association list of its own properties in insertion order, one
  entry per key: \<open>map_of\<close> reads an own property (\<open>None\<close> when there is none) and
  \<open>AList.update\<close> assigns one (in place when the key exists, at the end otherwise). A
  property that is not own is looked up on \<^verbatim>\<open>Object.prototype\<close>; that lookup is part of
  the model (see \<open>inherited\<close> below). Partition numbers are integers, and a partition
  used as a key stands for its decimal name.
\<close>

type_synonym ('k, 'v) js_object = "('k \<times> 'v) list"

definition obj_literal :: "('k \<times> 'v) list \<Rightarrow> ('k, 'v) js_object" where
  \<comment> \<open>an object literal with computed keys: the entries are assigned from left to right\<close>
  "obj_literal kvs = foldl (\<lambda>obj (k, v). AList.update k v obj) [] kvs"

definition is_digit :: "char \<Rightarrow> bool" where
  "is_digit c = (c \<in> set ''0123456789'')"

definition digit_value :: "char \<Rightarrow> int" where
  "digit_value c = of_char c - of_char (CHR ''0'')"

definition decimal_value :: "string \<Rightarrow> int" where
  "decimal_value s = foldl (\<lambda>n c. 10 * n + digit_value c) 0 s"

definition is_decimal :: "string \<Rightarrow> bool" where
  \<comment> \<open>a decimal numeral without a superfluous leading zero\<close>
  "is_decimal s = (s \<noteq> [] \<and> list_all is_digit s \<and> (length s = 1 \<or> hd s \<noteq> CHR ''0''))"

definition is_array_index :: "string \<Rightarrow> bool" where
  \<comment> \<open>a canonical decimal numeral below \<open>2^32 - 1\<close>\<close>
  "is_array_index s = (is_decimal s \<and> decimal_value s < 2 ^ 32 - 1)"

definition index_of_name :: "string \<Rightarrow> int option" where
  \<comment> \<open>the integer that has this property name: an integer below \<open>10^21\<close> in magnitude is
      named by its decimal numeral, with a minus sign when negative\<close>
  "index_of_name s =
     (if is_decimal s \<and> decimal_value s < 10 ^ 21 then Some (decimal_value s)
      else case s of
        [] \<Rightarrow> None
      | c # r \<Rightarrow>
          if c = CHR ''-'' \<and> is_decimal r \<and> 0 < decimal_value r \<and> decimal_value r < 10 ^ 21
          then Some (- decimal_value r) else None)"

definition Object_keys :: "(string, 'v) js_object \<Rightarrow> string list" where
  \<comment> \<open>own keys: array indices in ascending order, then the other names in insertion order\<close>
  "Object_keys obj =
     sort_key decimal_value (filter is_array_index (map fst obj))
     @ filter (\<lambda>k. \<not> is_array_index k) (map fst obj)"

subsection \<open>Constants\<close>

definition NO_PRODUCER_ID :: int where
  "NO_PRODUCER_ID = - 1"

definition SEQUENCE_START :: int where
  "SEQUENCE_START = 0"

definition INT_32_MAX_VALUE :: int where
  "INT_32_MAX_VALUE = 2 ^ 32"

text \<open>The five properties of the object \<^verbatim>\<open>STATES\<close> (lines 9 to 15), each with its value.\<close>

definition STATES_UNINITIALIZED :: string where
  "STATES_UNINITIALIZED = ''UNINITIALIZED''"

definition STATES_READY :: string where
  "STATES_READY = ''READY''"

definition STATES_TRANSACTING :: string where
  "STATES_TRANSACTING = ''TRANSACTING''"

definition STATES_COMMITTING :: string where
  "STATES_COMMITTING = ''COMMITTING''"

definition STATES_ABORTING :: string where
  "STATES_ABORTING = ''COMMITTING''"

definition STATES_values :: "string list" where
  "STATES_values =
     [STATES_UNINITIALIZED, STATES_READY, STATES_TRANSACTING, STATES_COMMITTING, STATES_ABORTING]"

definition VALID_TRANSITIONS :: "(string, string list) js_object" where
  "VALID_TRANSITIONS = obj_literal
     [(STATES_UNINITIALIZED, [STATES_READY]),
      (STATES_READY, [STATES_READY, STATES_TRANSACTING]),
      (STATES_TRANSACTING, [STATES_COMMITTING, STATES_ABORTING]),
      (STATES_COMMITTING, [STATES_READY]),
      (STATES_ABORTING, [STATES_READY])]"

subsection \<open>Errors, state, configuration and collaborators\<close>

text \<open>
  Every error the module raises itself is a \<^verbatim>\<open>KafkaJSNonRetriableError\<close>; the constructors
  below keep the values interpolated into its message:
  \<^item> \<open>CannotCall method state\<close>:
    \<^verbatim>\<open>Transaction state exception: Cannot call "method" in state "state"\<close> (the guard);
  \<^item> \<open>InvalidTransition from to\<close>:
    \<^verbatim>\<open>Transaction state exception: Invalid transition from --> to\<close> (\<^verbatim>\<open>transitionTo\<close>);
  \<^item> \<open>MethodUnavailable\<close>: \<^verbatim>\<open>Method unavailable if non-transactional\<close>;
  \<^item> \<open>MissingTransactionalId\<close>: \<^verbatim>\<open>Cannot manage transactions without a transactionalId\<close>.
  \<open>Rejected\<close> is a rejection of a collaborator's promise, which the module lets through;
  \<open>TypeError\<close> is the engine's error on calling or reading a property of \<^verbatim>\<open>undefined\<close>.
\<close>

datatype error =
    CannotCall string string
  | InvalidTransition string string
  | MethodUnavailable
  | MissingTransactionalId
  | Rejected
  | TypeError

fun is_InvalidStateTransition :: "error \<Rightarrow> bool" where
  "is_InvalidStateTransition (CannotCall m s) = True"
| "is_InvalidStateTransition (InvalidTransition f t) = True"
| "is_InvalidStateTransition e = False"

text \<open>
  What \<^verbatim>\<open>table[topic]\<close> can be for one of the two tables of the module:
  \<^item> \<open>Plain obj\<close>: an object created by \<^verbatim>\<open>{}\<close> in the module, with own entries \<open>obj\<close>;
  \<^item> \<open>Builtin name\<close>: the function \<^verbatim>\<open>Object.prototype[name]\<close> (\<^verbatim>\<open>toString\<close>, \<^verbatim>\<open>constructor\<close>,
    and so on), which a table inherits under that name;
  \<^item> \<open>Primitive n\<close>: the number \<open>n\<close>, inherited from a numeric property of
    \<^verbatim>\<open>Object.prototype\<close> when the topic is the decimal name of that property;
  \<^item> \<open>The_prototype\<close>: \<^verbatim>\<open>Object.prototype\<close> itself, which is what \<^verbatim>\<open>table['__proto__']\<close> is.
\<close>

datatype 'v holder =
    Plain "(int, 'v) js_object"
  | Builtin string
  | Primitive int
  | The_prototype

text \<open>
  The five variables of the closure, and the two places outside the module that it can
  write through a topic named like a property of \<^verbatim>\<open>Object.prototype\<close>: the numeric own
  properties of \<^verbatim>\<open>Object.prototype\<close> (\<open>prototype_numbers\<close>) and those of its functions
  (\<open>function_numbers\<close>, by function name). Both hold sequence numbers only (see
  \<open>mark_partitions\<close>).
\<close>

record tm_state =
  producerId :: int
  producerEpoch :: int
  producerSequence :: "(string, int holder) js_object"
  transactionTopicPartitions :: "(string, bool holder) js_object"
  currentState :: string
  prototype_numbers :: "(int, int) js_object"
  function_numbers :: "(string, (int, int) js_object) js_object"

record config =
  transactional :: bool
  transactionalId :: "string option"
  transactionTimeout :: int

text \<open>
  The answers of the collaborators during one operation: whether each awaited call
  resolves, and the identity the broker assigns (\<open>None\<close> when that request is rejected).
\<close>

record env =
  refreshMetadataIfNecessary_ok :: bool
  findGroupCoordinator_ok :: bool
  findControllerBroker_ok :: bool
  initProducerId_reply :: "(int \<times> int) option"
  addPartitionsToTxn_ok :: bool
  endTxn_ok :: bool

datatype request =
    RefreshMetadataIfNecessary
  | FindGroupCoordinator "string option"
  | FindControllerBroker
  | InitProducerIdRequest "string option" int
  | AddPartitionsToTxn "string option" int int "(string \<times> int list) list"
  | EndTxn int int "string option" bool

text \<open>
  An event is a request together with the state of the module at the moment the request
  is issued. An outcome is what the call returns or throws, the state it leaves, and the
  events in the order they were issued.
\<close>

type_synonym event = "request \<times> tm_state"

type_synonym 'r outcome = "(error + 'r) \<times> tm_state \<times> event list"

definition result_of :: "'r outcome \<Rightarrow> error + 'r" where
  "result_of out = fst out"

definition state_of :: "'r outcome \<Rightarrow> tm_state" where
  "state_of out = fst (snd out)"

definition events_of :: "'r outcome \<Rightarrow> event list" where
  "events_of out = snd (snd out)"

definition initial_state :: tm_state where
  \<comment> \<open>lines 42 to 64, where \<^verbatim>\<open>Object.prototype\<close> and its functions have no numeric property\<close>
  "initial_state =
     \<lparr>producerId = NO_PRODUCER_ID, producerEpoch = 0, producerSequence = [],
      transactionTopicPartitions = [], currentState = STATES_UNINITIALIZED,
      prototype_numbers = [], function_numbers = []\<rparr>"

definition createTransactionManager :: "config \<Rightarrow> error + tm_state" where
  \<comment> \<open>the factory, lines 28 to 64: an undefined or empty id is falsy\<close>
  "createTransactionManager cfg =
     (if transactional cfg \<and> (transactionalId cfg = None \<or> transactionalId cfg = Some [])
      then Inl MissingTransactionalId
      else Inr initial_state)"

subsection \<open>The state machine\<close>

definition transition_listener :: "string \<Rightarrow> tm_state \<Rightarrow> tm_state" where
  \<comment> \<open>the listener of the event \<^verbatim>\<open>transition\<close>, lines 100 to 104\<close>
  "transition_listener to_state st =
     (if to_state = STATES_READY then st\<lparr>transactionTopicPartitions := []\<rparr> else st)"

definition transitionTo :: "string \<Rightarrow> tm_state \<Rightarrow> (error + unit) \<times> tm_state" where
  \<comment> \<open>lines 86 to 97; the listener runs inside \<^verbatim>\<open>emit\<close>, before the assignment\<close>
  "transitionTo state st =
     (case map_of VALID_TRANSITIONS (currentState st) of
        None \<Rightarrow> (Inl TypeError, st)
      | Some successors \<Rightarrow>
          if state \<notin> set successors
          then (Inl (InvalidTransition (currentState st) state), st)
          else (Inr (), (transition_listener state st)\<lparr>currentState := state\<rparr>))"

definition transactionalGuard :: "config \<Rightarrow> error + unit" where
  "transactionalGuard cfg = (if \<not> transactional cfg then Inl MethodUnavailable else Inr ())"

subsection \<open>Producer identity\<close>

definition isInitialized :: "tm_state \<Rightarrow> bool" where
  "isInitialized st = (producerId st \<noteq> NO_PRODUCER_ID)"

definition isInTransaction :: "tm_state \<Rightarrow> bool" where
  "isInTransaction st = (currentState st = STATES_TRANSACTING)"

definition coordinator_request :: "config \<Rightarrow> request" where
  \<comment> \<open>\<^verbatim>\<open>cluster.findGroupCoordinator({ groupId: transactionalId, coordinatorType })\<close>\<close>
  "coordinator_request cfg = FindGroupCoordinator (transactionalId cfg)"

definition initProducerId :: "config \<Rightarrow> env \<Rightarrow> tm_state \<Rightarrow> unit outcome" where
  "initProducerId cfg env st =
     (let e1 = (RefreshMetadataIfNecessary, st) in
      if \<not> refreshMetadataIfNecessary_ok env then (Inl Rejected, st, [e1])
      else
        let e2 = (if transactional cfg then coordinator_request cfg else FindControllerBroker, st);
            found = (if transactional cfg then findGroupCoordinator_ok env
                     else findControllerBroker_ok env)
        in
        if \<not> found then (Inl Rejected, st, [e1, e2])
        else
          let e3 = (InitProducerIdRequest
                      (if transactional cfg then transactionalId cfg else None)
                      (transactionTimeout cfg), st)
          in
          case initProducerId_reply env of
            None \<Rightarrow> (Inl Rejected, st, [e1, e2, e3])
          | Some (newId, newEpoch) \<Rightarrow>
              (case transitionTo STATES_READY st of
                 (Inl err, st1) \<Rightarrow> (Inl err, st1, [e1, e2, e3])
               | (Inr _, st1) \<Rightarrow>
                   (Inr (),
                    st1\<lparr>producerId := newId, producerEpoch := newEpoch, producerSequence := []\<rparr>,
                    [e1, e2, e3])))"

subsection \<open>Property lookup and numbers\<close>

definition Object_prototype_functions :: "string list" where
  \<comment> \<open>the names of the own properties of \<^verbatim>\<open>Object.prototype\<close> whose value is a function\<close>
  "Object_prototype_functions =
     [''constructor'', ''__defineGetter__'', ''__defineSetter__'', ''hasOwnProperty'',
      ''__lookupGetter__'', ''__lookupSetter__'', ''isPrototypeOf'', ''propertyIsEnumerable'',
      ''toString'', ''valueOf'', ''toLocaleString'']"

definition inherited :: "tm_state \<Rightarrow> string \<Rightarrow> 'v holder option" where
  \<comment> \<open>\<^verbatim>\<open>Object.prototype[name]\<close>, which \<^verbatim>\<open>obj[name]\<close> is when \<open>obj\<close> has no own property \<open>name\<close>\<close>
  "inherited st name =
     (if name \<in> set Object_prototype_functions then Some (Builtin name)
      else case index_of_name name of
        None \<Rightarrow> None
      | Some k \<Rightarrow> map_option Primitive (map_of (prototype_numbers st) k))"

definition get_property :: "tm_state \<Rightarrow> (string, 'v holder) js_object \<Rightarrow> string \<Rightarrow> 'v holder option" where
  \<comment> \<open>\<^verbatim>\<open>obj[name]\<close> for a table or for \<^verbatim>\<open>newTopicPartitions\<close>; \<^verbatim>\<open>__proto__\<close> is an accessor\<close>
  "get_property st obj name =
     (if name = ''__proto__'' then Some The_prototype
      else case map_of obj name of
        Some h \<Rightarrow> Some h
      | None \<Rightarrow> inherited st name)"

definition set_property :: "(string, 'v holder) js_object \<Rightarrow> string \<Rightarrow> 'v holder \<Rightarrow> (string, 'v holder) js_object" where
  \<comment> \<open>\<^verbatim>\<open>obj[name] = h\<close>; for \<^verbatim>\<open>__proto__\<close> the value is \<^verbatim>\<open>Object.prototype\<close>, which the object
      already has as its prototype, and the assignment changes nothing\<close>
  "set_property obj name h = (if name = ''__proto__'' then obj else AList.update name h obj)"

definition or_object :: "'v holder option \<Rightarrow> 'v holder" where
  \<comment> \<open>\<^verbatim>\<open>x || {}\<close>: undefined and the number 0 are falsy\<close>
  "or_object x =
     (case x of
        None \<Rightarrow> Plain []
      | Some (Primitive n) \<Rightarrow> if n = 0 then Plain [] else Primitive n
      | Some h \<Rightarrow> h)"

definition or_empty :: "('k, 'v) js_object option \<Rightarrow> ('k, 'v) js_object" where
  \<comment> \<open>the own entries of an object that may not have been written yet\<close>
  "or_empty x = (case x of None \<Rightarrow> [] | Some obj \<Rightarrow> obj)"

definition number_at :: "tm_state \<Rightarrow> int holder \<Rightarrow> int \<Rightarrow> int option" where
  \<comment> \<open>\<^verbatim>\<open>h[partition]\<close> in \<^verbatim>\<open>producerSequence\<close>: the own property, else the one of
      \<^verbatim>\<open>Object.prototype\<close> (neither \<^verbatim>\<open>Function.prototype\<close> nor \<^verbatim>\<open>Number.prototype\<close> has
      numeric properties)\<close>
  "number_at st h partition' =
     (case h of
        Plain obj \<Rightarrow>
          (case map_of obj partition' of
             Some v \<Rightarrow> Some v
           | None \<Rightarrow> map_of (prototype_numbers st) partition')
      | Builtin name \<Rightarrow>
          (case map_of (or_empty (map_of (function_numbers st) name)) partition' of
             Some v \<Rightarrow> Some v
           | None \<Rightarrow> map_of (prototype_numbers st) partition')
      | Primitive n \<Rightarrow> map_of (prototype_numbers st) partition'
      | The_prototype \<Rightarrow> map_of (prototype_numbers st) partition')"

definition put_number :: "string \<Rightarrow> int holder \<Rightarrow> int \<Rightarrow> int \<Rightarrow> tm_state \<Rightarrow> tm_state" where
  \<comment> \<open>\<^verbatim>\<open>producerSequence[topic][partition] = v\<close>, where \<open>h\<close> is \<^verbatim>\<open>producerSequence[topic]\<close>;
      the module is not in strict mode, where assigning to a property of a number does
      nothing\<close>
  "put_number topic h partition' v st =
     (case h of
        Plain obj \<Rightarrow>
          st\<lparr>producerSequence :=
               AList.update topic (Plain (AList.update partition' v obj)) (producerSequence st)\<rparr>
      | Builtin name \<Rightarrow>
          st\<lparr>function_numbers :=
               AList.update name
                 (AList.update partition' v (or_empty (map_of (function_numbers st) name)))
                 (function_numbers st)\<rparr>
      | Primitive n \<Rightarrow> st
      | The_prototype \<Rightarrow>
          st\<lparr>prototype_numbers := AList.update partition' v (prototype_numbers st)\<rparr>)"

function ulp_of :: "int \<Rightarrow> int" where
  \<comment> \<open>the spacing of the doubles around a magnitude of \<open>2^53\<close> or more\<close>
  "ulp_of m = (if m < 2 ^ 53 then 1 else 2 * ulp_of (m div 2))"
  by pat_completeness auto
termination
  by (relation "measure nat") auto

declare ulp_of.simps [simp del]

definition to_double :: "int \<Rightarrow> int" where
  \<comment> \<open>the double nearest to an integer, ties to even; magnitudes stay below \<open>2^1024\<close>\<close>
  "to_double n =
     (if \<bar>n\<bar> \<le> 2 ^ 53 then n
      else
        let ulp = ulp_of \<bar>n\<bar>;
            q = \<bar>n\<bar> div ulp;
            r = \<bar>n\<bar> mod ulp;
            q' = (if ulp < 2 * r \<or> (2 * r = ulp \<and> odd q) then q + 1 else q)
        in sgn n * (q' * ulp))"

definition or_SEQUENCE_START :: "int option \<Rightarrow> int" where
  \<comment> \<open>\<^verbatim>\<open>x || SEQUENCE_START\<close> for \<open>x\<close> a number or undefined: zero is falsy\<close>
  "or_SEQUENCE_START x =
     (case x of None \<Rightarrow> SEQUENCE_START | Some n \<Rightarrow> if n = 0 then SEQUENCE_START else n)"

subsection \<open>Sequence numbers\<close>

definition sequence_holder :: "tm_state \<Rightarrow> string \<Rightarrow> int holder" where
  \<comment> \<open>\<^verbatim>\<open>producerSequence[topic]\<close> once line 173 has assigned it\<close>
  "sequence_holder st topic = or_object (get_property st (producerSequence st) topic)"

definition getSequence :: "string \<Rightarrow> int \<Rightarrow> tm_state \<Rightarrow> int option outcome" where
  \<comment> \<open>the value returned is a number or undefined (\<open>None\<close>)\<close>
  "getSequence topic partition' st =
     (if \<not> isInitialized st then (Inr (Some SEQUENCE_START), st, [])
      else
        let h = or_object (get_property st (producerSequence st) topic);
            st1 = st\<lparr>producerSequence := set_property (producerSequence st) topic h\<rparr>;
            v = or_SEQUENCE_START (number_at st1 (sequence_holder st1 topic) partition');
            st2 = put_number topic (sequence_holder st1 topic) partition' v st1
        in (Inr (number_at st2 (sequence_holder st2 topic) partition'), st2, []))"

definition updateSequence :: "string \<Rightarrow> int \<Rightarrow> int \<Rightarrow> tm_state \<Rightarrow> unit outcome" where
  \<comment> \<open>\<^verbatim>\<open>undefined + increment\<close> is \<^verbatim>\<open>NaN\<close>, which compares false with \<open>2^32\<close>; it arises only
      when \<^verbatim>\<open>producerSequence[topic]\<close> is a number, on which the assignment does nothing\<close>
  "updateSequence topic partition' increment st =
     (if \<not> isInitialized st then (Inr (), st, [])
      else
        case getSequence topic partition' st of
          (Inl err, st1, evs) \<Rightarrow> (Inl err, st1, evs)
        | (Inr None, st1, evs) \<Rightarrow> (Inr (), st1, evs)
        | (Inr (Some previous), st1, evs) \<Rightarrow>
            let sequence = to_double (previous + increment);
                sequence = (if sequence \<ge> INT_32_MAX_VALUE then 0 else sequence)
            in (Inr (), put_number topic (sequence_holder st1 topic) partition' sequence st1,
                evs))"


subsection \<open>Transactions\<close>

definition beginTransaction :: "config \<Rightarrow> tm_state \<Rightarrow> unit outcome" where
  "beginTransaction cfg st =
     (case transactionalGuard cfg of
        Inl err \<Rightarrow> (Inl err, st, [])
      | Inr _ \<Rightarrow>
          (case transitionTo STATES_TRANSACTING st of
             (Inl err, st1) \<Rightarrow> (Inl err, st1, [])
           | (Inr _, st1) \<Rightarrow> (Inr (), st1, [])))"

definition truthy_number :: "int option \<Rightarrow> bool" where
  "truthy_number x = (case x of None \<Rightarrow> False | Some n \<Rightarrow> n \<noteq> 0)"

definition enlisted_at :: "tm_state \<Rightarrow> bool holder \<Rightarrow> int \<Rightarrow> bool" where
  \<comment> \<open>the truth value of \<^verbatim>\<open>h[partition]\<close> on line 234, where \<open>h\<close> is
      \<^verbatim>\<open>transactionTopicPartitions[topic]\<close>: the own property, else the one of
      \<^verbatim>\<open>Object.prototype\<close>\<close>
  "enlisted_at st h partition' =
     (case h of
        Plain obj \<Rightarrow>
          (case map_of obj partition' of
             Some b \<Rightarrow> b
           | None \<Rightarrow> truthy_number (map_of (prototype_numbers st) partition'))
      | Builtin name \<Rightarrow>
          truthy_number
            (case map_of (or_empty (map_of (function_numbers st) name)) partition' of
               Some v \<Rightarrow> Some v
             | None \<Rightarrow> map_of (prototype_numbers st) partition')
      | Primitive n \<Rightarrow> truthy_number (map_of (prototype_numbers st) partition')
      | The_prototype \<Rightarrow> truthy_number (map_of (prototype_numbers st) partition'))"

definition push_partition ::
  "tm_state \<Rightarrow> (string, int list) js_object \<Rightarrow> string \<Rightarrow> int
   \<Rightarrow> error + (string, int list) js_object" where
  \<comment> \<open>lines 235 and 236: an inherited object, or an inherited number other than 0, is
      kept by \<^verbatim>\<open>|| []\<close> and has no \<^verbatim>\<open>push\<close>\<close>
  "push_partition st newTopicPartitions topic partition' =
     (if topic = ''__proto__'' then Inl TypeError
      else case map_of newTopicPartitions topic of
        Some ps \<Rightarrow> Inr (AList.update topic (ps @ [partition']) newTopicPartitions)
      | None \<Rightarrow>
          (case (inherited st topic :: unit holder option) of
             None \<Rightarrow> Inr (AList.update topic [partition'] newTopicPartitions)
           | Some (Primitive n) \<Rightarrow>
               if n = 0 then Inr (AList.update topic [partition'] newTopicPartitions)
               else Inl TypeError
           | Some h \<Rightarrow> Inl TypeError))"

fun forEach_partition ::
  "tm_state \<Rightarrow> bool holder \<Rightarrow> string \<Rightarrow> int list \<Rightarrow> (string, int list) js_object
   \<Rightarrow> error + (string, int list) js_object" where
  "forEach_partition st h topic [] newTopicPartitions = Inr newTopicPartitions"
| "forEach_partition st h topic (partition' # rest) newTopicPartitions =
     (if \<not> enlisted_at st h partition'
      then (case push_partition st newTopicPartitions topic partition' of
              Inl err \<Rightarrow> Inl err
            | Inr pushed \<Rightarrow> forEach_partition st h topic rest pushed)
      else forEach_partition st h topic rest newTopicPartitions)"

fun forEach_topicData ::
  "tm_state \<Rightarrow> (string \<times> int list) list \<Rightarrow> (string, bool holder) js_object
   \<Rightarrow> (string, int list) js_object
   \<Rightarrow> (error + (string, int list) js_object) \<times> (string, bool holder) js_object" where
  "forEach_topicData st [] tps newTopicPartitions = (Inr newTopicPartitions, tps)"
| "forEach_topicData st ((topic, partitions) # rest) tps newTopicPartitions =
     (let h = or_object (get_property st tps topic);
          tps1 = set_property tps topic h
      in case forEach_partition st h topic partitions newTopicPartitions of
           Inl err \<Rightarrow> (Inl err, tps1)
         | Inr pushed \<Rightarrow> forEach_topicData st rest tps1 pushed)"

definition topics_of :: "(string, int list) js_object \<Rightarrow> (string \<times> int list) list" where
  \<comment> \<open>lines 241 to 244; a key that \<open>Object_keys\<close> lists is a key of the object\<close>
  "topics_of newTopicPartitions =
     map (\<lambda>topic. (topic, case map_of newTopicPartitions topic of None \<Rightarrow> [] | Some ps \<Rightarrow> ps))
       (Object_keys newTopicPartitions)"

fun mark_partitions ::
  "tm_state \<Rightarrow> string \<Rightarrow> int list \<Rightarrow> (string, bool holder) js_object
   \<Rightarrow> (string, bool holder) js_object" where
  \<comment> \<open>line 256. A topic of \<^verbatim>\<open>topics\<close> got an entry on line 231 and is not the name of a
      property of \<^verbatim>\<open>Object.prototype\<close> (\<open>pushed_topics_ordinary\<close>), so its entry is an
      object of the module or a number; on a number the assignment does nothing\<close>
  "mark_partitions st topic [] tps = tps"
| "mark_partitions st topic (partition' # rest) tps =
     mark_partitions st topic rest
       (case get_property st tps topic of
          Some (Plain obj) \<Rightarrow> AList.update topic (Plain (AList.update partition' True obj)) tps
        | _ \<Rightarrow> tps)"

fun mark_topics ::
  "tm_state \<Rightarrow> (string \<times> int list) list \<Rightarrow> (string, bool holder) js_object
   \<Rightarrow> (string, bool holder) js_object" where
  "mark_topics st [] tps = tps"
| "mark_topics st ((topic, partitions) # rest) tps =
     mark_topics st rest (mark_partitions st topic partitions tps)"

definition addPartitionsToTransaction ::
  "config \<Rightarrow> env \<Rightarrow> (string \<times> int list) list \<Rightarrow> tm_state \<Rightarrow> unit outcome" where
  "addPartitionsToTransaction cfg env topicData st =
     (case transactionalGuard cfg of
        Inl err \<Rightarrow> (Inl err, st, [])
      | Inr _ \<Rightarrow>
          (case forEach_topicData st topicData (transactionTopicPartitions st) [] of
             (Inl err, tps1) \<Rightarrow> (Inl err, st\<lparr>transactionTopicPartitions := tps1\<rparr>, [])
           | (Inr newTopicPartitions, tps1) \<Rightarrow>
               let st1 = st\<lparr>transactionTopicPartitions := tps1\<rparr>;
                   topics = topics_of newTopicPartitions;
                   finish = (\<lambda>evs. (Inr (),
                             st1\<lparr>transactionTopicPartitions := mark_topics st1 topics tps1\<rparr>, evs))
               in
               if topics = [] then finish []
               else
                 let e1 = (coordinator_request cfg, st1) in
                 if \<not> findGroupCoordinator_ok env then (Inl Rejected, st1, [e1])
                 else
                   let e2 = (AddPartitionsToTxn (transactionalId cfg) (producerId st1)
                               (producerEpoch st1) topics, st1)
                   in
                   if \<not> addPartitionsToTxn_ok env then (Inl Rejected, st1, [e1, e2])
                   else finish [e1, e2]))"

text \<open>
  Readings of the tables and of the body of \<^verbatim>\<open>addPartitionsToTransaction\<close>, used to
  state its properties: whether a pair is recorded in \<^verbatim>\<open>transactionTopicPartitions\<close>, the
  pairs held by \<^verbatim>\<open>newTopicPartitions\<close>, the outcome of the loop of lines 230 to 239 from a
  state, the array \<^verbatim>\<open>topics\<close> of lines 241 to 244 when the loop completes, and the state
  after the loop.
\<close>

definition is_enlisted :: "(string, bool holder) js_object \<Rightarrow> string \<Rightarrow> int \<Rightarrow> bool" where
  \<comment> \<open>the table has an object for the topic, which has the partition marked\<close>
  "is_enlisted tps topic partition' =
     (case map_of tps topic of
        Some (Plain obj) \<Rightarrow> (case map_of obj partition' of None \<Rightarrow> False | Some b \<Rightarrow> b)
      | _ \<Rightarrow> False)"

definition listed_in :: "(string, int list) js_object \<Rightarrow> string \<Rightarrow> int \<Rightarrow> bool" where
  \<comment> \<open>whether \<^verbatim>\<open>newTopicPartitions[topic]\<close> holds the partition\<close>
  "listed_in newTopicPartitions topic p =
     (case map_of newTopicPartitions topic of None \<Rightarrow> False | Some ps \<Rightarrow> p \<in> set ps)"

definition scanned ::
  "(string \<times> int list) list \<Rightarrow> tm_state
   \<Rightarrow> (error + (string, int list) js_object) \<times> (string, bool holder) js_object" where
  "scanned topicData st = forEach_topicData st topicData (transactionTopicPartitions st) []"

definition new_topics :: "(string \<times> int list) list \<Rightarrow> tm_state \<Rightarrow> (string \<times> int list) list" where
  "new_topics topicData st =
     (case fst (scanned topicData st) of Inl err \<Rightarrow> [] | Inr new \<Rightarrow> topics_of new)"

definition materialised :: "(string \<times> int list) list \<Rightarrow> tm_state \<Rightarrow> tm_state" where
  "materialised topicData st = st\<lparr>transactionTopicPartitions := snd (scanned topicData st)\<rparr>"

definition commit :: "config \<Rightarrow> env \<Rightarrow> tm_state \<Rightarrow> unit outcome" where
  "commit cfg env st =
     (case transactionalGuard cfg of
        Inl err \<Rightarrow> (Inl err, st, [])
      | Inr _ \<Rightarrow>
          (case transitionTo STATES_COMMITTING st of
             (Inl err, st1) \<Rightarrow> (Inl err, st1, [])
           | (Inr _, st1) \<Rightarrow>
               let e1 = (coordinator_request cfg, st1) in
               if \<not> findGroupCoordinator_ok env then (Inl Rejected, st1, [e1])
               else
                 let e2 = (EndTxn (producerId st1) (producerEpoch st1) (transactionalId cfg)
                             True, st1)
                 in
                 if \<not> endTxn_ok env then (Inl Rejected, st1, [e1, e2])
                 else
                   (case transitionTo STATES_READY st1 of
                      (Inl err, st2) \<Rightarrow> (Inl err, st2, [e1, e2])
                    | (Inr _, st2) \<Rightarrow> (Inr (), st2, [e1, e2]))))"

definition abort :: "config \<Rightarrow> env \<Rightarrow> tm_state \<Rightarrow> unit outcome" where
  "abort cfg env st =
     (case transactionalGuard cfg of
        Inl err \<Rightarrow> (Inl err, st, [])
      | Inr _ \<Rightarrow>
          (case transitionTo STATES_ABORTING st of
             (Inl err, st1) \<Rightarrow> (Inl err, st1, [])
           | (Inr _, st1) \<Rightarrow>
               let e1 = (coordinator_request cfg, st1) in
               if \<not> findGroupCoordinator_ok env then (Inl Rejected, st1, [e1])
               else
                 let e2 = (EndTxn (producerId st1) (producerEpoch st1) (transactionalId cfg)
                             False, st1)
                 in
                 if \<not> endTxn_ok env then (Inl Rejected, st1, [e1, e2])
                 else
                   (case transitionTo STATES_READY st1 of
                      (Inl err, st2) \<Rightarrow> (Inl err, st2, [e1, e2])
                    | (Inr _, st2) \<Rightarrow> (Inr (), st2, [e1, e2]))))"

subsection \<open>The exported object and the guards registered on it\<close>

text \<open>
  The object \<^verbatim>\<open>transactionManager\<close> (lines 112 to 312) with the seven operations that
  lines 315 to 321 register a guard for, and the property \<^verbatim>\<open>method\<close>, which the literal
  does not define (\<open>None\<close>) and which \<^verbatim>\<open>guard\<close> reads and assigns. The wrapper that
  \<^verbatim>\<open>guard\<close> builds takes any arguments and returns what the wrapped function returns,
  hence the two type parameters. The calls \<^verbatim>\<open>transactionManager.isInitialized()\<close> and
  \<^verbatim>\<open>transactionManager.getSequence(..)\<close> inside the operations go to the functions of the
  literal, since no assignment to those properties exists in the module.
\<close>

record ('a, 'r) transactionManager_object =
  prop_initProducerId :: "env \<Rightarrow> tm_state \<Rightarrow> unit outcome"
  prop_getSequence :: "string \<Rightarrow> int \<Rightarrow> tm_state \<Rightarrow> int option outcome"
  prop_updateSequence :: "string \<Rightarrow> int \<Rightarrow> int \<Rightarrow> tm_state \<Rightarrow> unit outcome"
  prop_beginTransaction :: "tm_state \<Rightarrow> unit outcome"
  prop_addPartitionsToTransaction :: "env \<Rightarrow> (string \<times> int list) list \<Rightarrow> tm_state \<Rightarrow> unit outcome"
  prop_commit :: "env \<Rightarrow> tm_state \<Rightarrow> unit outcome"
  prop_abort :: "env \<Rightarrow> tm_state \<Rightarrow> unit outcome"
  prop_method :: "('a \<Rightarrow> env \<Rightarrow> tm_state \<Rightarrow> 'r outcome) option"

definition guard ::
  "('a, 'r) transactionManager_object \<Rightarrow> string \<Rightarrow> string list
   \<Rightarrow> ('a, 'r) transactionManager_object" where
  \<comment> \<open>lines 70 to 82: \<^verbatim>\<open>object.method\<close> names the property called \<^verbatim>\<open>method\<close>\<close>
  "guard object method eligibleStates =
     (let fn = prop_method object in
      object\<lparr>prop_method := Some (\<lambda>args env st.
        if currentState st \<notin> set eligibleStates
        then (Inl (CannotCall method (currentState st)), st, [])
        else (case fn of
                None \<Rightarrow> (Inl TypeError, st, [])
              | Some f \<Rightarrow> f args env st))\<rparr>)"

definition transactionManager_literal :: "config \<Rightarrow> ('a, 'r) transactionManager_object" where
  "transactionManager_literal cfg =
     \<lparr>prop_initProducerId = initProducerId cfg,
      prop_getSequence = getSequence,
      prop_updateSequence = updateSequence,
      prop_beginTransaction = beginTransaction cfg,
      prop_addPartitionsToTransaction = addPartitionsToTransaction cfg,
      prop_commit = commit cfg,
      prop_abort = abort cfg,
      prop_method = None\<rparr>"

definition guard_registrations :: "(string \<times> string list) list" where
  \<comment> \<open>lines 315 to 321, in order\<close>
  "guard_registrations =
     [(''initProducerId'', [STATES_UNINITIALIZED, STATES_READY]),
      (''beginTransaction'', [STATES_READY]),
      (''getSequence'', [STATES_TRANSACTING]),
      (''updateSequence'', [STATES_TRANSACTING]),
      (''addPartitionsToTransaction'', [STATES_TRANSACTING]),
      (''commit'', [STATES_TRANSACTING]),
      (''abort'', [STATES_TRANSACTING])]"

definition transactionManager :: "config \<Rightarrow> ('a, 'r) transactionManager_object" where
  \<comment> \<open>the object the factory returns\<close>
  "transactionManager cfg =
     foldl (\<lambda>object (method, eligibleStates). guard object method eligibleStates)
       (transactionManager_literal cfg) guard_registrations"

subsection \<open>Reference definitions and example values\<close>

text \<open>
  The transition graph as the specification lists it, edge by edge, over the names of
  \<^verbatim>\<open>STATES\<close>. It is compared with \<open>VALID_TRANSITIONS\<close> below.
\<close>

definition spec_legal_successor :: "string \<Rightarrow> string \<Rightarrow> bool" where
  "spec_legal_successor current target =
     ((current = STATES_UNINITIALIZED \<and> target = STATES_READY)
      \<or> (current = STATES_READY \<and> (target = STATES_READY \<or> target = STATES_TRANSACTING))
      \<or> (current = STATES_TRANSACTING \<and> (target = STATES_COMMITTING \<or> target = STATES_ABORTING))
      \<or> (current = STATES_COMMITTING \<and> target = STATES_READY)
      \<or> (current = STATES_ABORTING \<and> target = STATES_READY))"

text \<open>
  The pairs (topic, partition) that an argument of \<^verbatim>\<open>addPartitionsToTransaction\<close>, or the
  \<^verbatim>\<open>topics\<close> of an enlistment request, names.
\<close>

definition named_in :: "(string \<times> int list) list \<Rightarrow> string \<Rightarrow> int \<Rightarrow> bool" where
  "named_in topicData topic p = list_ex (\<lambda>(t, ps). t = topic \<and> p \<in> set ps) topicData"



definition example_config :: config where
  "example_config =
     \<lparr>transactional = True, transactionalId = Some ''tx-1'', transactionTimeout = 60000\<rparr>"

definition all_resolve :: env where
  "all_resolve =
     \<lparr>refreshMetadataIfNecessary_ok = True, findGroupCoordinator_ok = True,
      findControllerBroker_ok = True, initProducerId_reply = Some (1000, 0),
      addPartitionsToTxn_ok = True, endTxn_ok = True\<rparr>"

definition endTxn_rejected :: env where
  "endTxn_rejected = all_resolve\<lparr>endTxn_ok := False\<rparr>"

definition example_state :: "string \<Rightarrow> tm_state" where
  \<comment> \<open>an initialised manager with empty tables in the given lifecycle state\<close>
  "example_state s =
     \<lparr>producerId = 1000, producerEpoch = 0, producerSequence = [],
      transactionTopicPartitions = [], currentState = s,
      prototype_numbers = [], function_numbers = []\<rparr>"


definition addPartitionsToTxn_rejected :: env where
  "addPartitionsToTxn_rejected = all_resolve\<lparr>addPartitionsToTxn_ok := False\<rparr>"

definition enlisted_t0 :: tm_state where
  \<comment> \<open>in a transaction, with partition 0 of topic \<^verbatim>\<open>t\<close> enlisted\<close>
  "enlisted_t0 =
     (example_state STATES_TRANSACTING)\<lparr>transactionTopicPartitions := [(''t'', Plain [(0, True)])]\<rparr>"

section \<open>Properties\<close>

subsection \<open>The state machine\<close>

lemmas STATES_defs = STATES_UNINITIALIZED_def STATES_READY_def STATES_TRANSACTING_def
  STATES_COMMITTING_def STATES_ABORTING_def

lemmas outcome_defs = result_of_def state_of_def events_of_def

lemma VALID_TRANSITIONS_entries:
  "VALID_TRANSITIONS =
     [(STATES_UNINITIALIZED, [STATES_READY]),
      (STATES_READY, [STATES_READY, STATES_TRANSACTING]),
      (STATES_TRANSACTING, [STATES_COMMITTING, STATES_ABORTING]),
      (STATES_COMMITTING, [STATES_READY])]"
  by (simp add: VALID_TRANSITIONS_def obj_literal_def STATES_defs)

lemma successors_of_state:
  "map_of VALID_TRANSITIONS s =
     (if s = STATES_UNINITIALIZED then Some [STATES_READY]
      else if s = STATES_READY then Some [STATES_READY, STATES_TRANSACTING]
      else if s = STATES_TRANSACTING then Some [STATES_COMMITTING, STATES_ABORTING]
      else if s = STATES_COMMITTING then Some [STATES_READY]
      else None)"
  by (simp add: VALID_TRANSITIONS_entries STATES_defs)

lemma transitionTo_cases:
  "transitionTo target st =
     (if currentState st = STATES_UNINITIALIZED \<or> currentState st = STATES_COMMITTING
      then (if target = STATES_READY
            then (Inr (), st\<lparr>transactionTopicPartitions := [], currentState := target\<rparr>)
            else (Inl (InvalidTransition (currentState st) target), st))
      else if currentState st = STATES_READY
      then (if target = STATES_READY
            then (Inr (), st\<lparr>transactionTopicPartitions := [], currentState := target\<rparr>)
            else if target = STATES_TRANSACTING
            then (Inr (), st\<lparr>currentState := target\<rparr>)
            else (Inl (InvalidTransition (currentState st) target), st))
      else if currentState st = STATES_TRANSACTING
      then (if target = STATES_COMMITTING
            then (Inr (), st\<lparr>currentState := target\<rparr>)
            else (Inl (InvalidTransition (currentState st) target), st))
      else (Inl TypeError, st))"
  by (simp add: transitionTo_def successors_of_state transition_listener_def STATES_defs)

text \<open>
  C9. From any state of \<^verbatim>\<open>STATES\<close> and for any target, \<^verbatim>\<open>transitionTo(target)\<close> throws the
  invalid-transition error and leaves the whole state as it was when the target is not a
  successor of the current state in the graph of the specification; otherwise it returns
  with the current state set to the target and with the side effect of the transition
  (entering \<^verbatim>\<open>READY\<close> empties the enlisted partitions) already applied.
\<close>

theorem transitionTo_follows_graph:
  assumes "currentState st \<in> set STATES_values"
  shows "transitionTo target st =
     (if spec_legal_successor (currentState st) target
      then (Inr (), st\<lparr>transactionTopicPartitions :=
                        (if target = STATES_READY then [] else transactionTopicPartitions st),
                      currentState := target\<rparr>)
      else (Inl (InvalidTransition (currentState st) target), st))"
  using assms
  by (auto simp add: transitionTo_cases spec_legal_successor_def STATES_values_def STATES_defs)

theorem transitionTo_follows_graph_witness:
  "currentState initial_state \<in> set STATES_values
   \<and> transitionTo STATES_TRANSACTING initial_state
       = (Inl (InvalidTransition STATES_UNINITIALIZED STATES_TRANSACTING), initial_state)
   \<and> transitionTo STATES_READY initial_state
       = (Inr (), initial_state\<lparr>currentState := STATES_READY\<rparr>)"
  using transitionTo_follows_graph [of initial_state STATES_TRANSACTING]
    transitionTo_follows_graph [of initial_state STATES_READY]
  by (simp add: initial_state_def STATES_values_def spec_legal_successor_def STATES_defs)

text \<open>
  C10. On a transactional manager, \<^verbatim>\<open>beginTransaction\<close> outside \<^verbatim>\<open>READY\<close>, and \<^verbatim>\<open>commit\<close>
  and \<^verbatim>\<open>abort\<close> outside \<^verbatim>\<open>TRANSACTING\<close>, throw the invalid-transition error of
  \<^verbatim>\<open>transitionTo\<close>, issue no request and leave the state as it was. The three functions
  are the bodies of the object literal, which contain no guard.
\<close>

theorem transition_table_rejects:
  assumes "transactional cfg" and "currentState st \<in> set STATES_values"
  shows "(currentState st \<noteq> STATES_READY \<longrightarrow>
            beginTransaction cfg st
              = (Inl (InvalidTransition (currentState st) STATES_TRANSACTING), st, []))
       \<and> (currentState st \<noteq> STATES_TRANSACTING \<longrightarrow>
            commit cfg env st
              = (Inl (InvalidTransition (currentState st) STATES_COMMITTING), st, [])
            \<and> abort cfg env st
              = (Inl (InvalidTransition (currentState st) STATES_ABORTING), st, []))"
  using assms
  by (auto simp add: beginTransaction_def commit_def abort_def transactionalGuard_def
      transitionTo_cases STATES_values_def STATES_defs)

theorem transition_table_rejects_witness:
  "transactional example_config
   \<and> currentState (example_state STATES_COMMITTING) \<in> set STATES_values
   \<and> currentState (example_state STATES_COMMITTING) \<noteq> STATES_READY
   \<and> currentState (example_state STATES_COMMITTING) \<noteq> STATES_TRANSACTING
   \<and> beginTransaction example_config (example_state STATES_COMMITTING)
       = (Inl (InvalidTransition ''COMMITTING'' ''TRANSACTING''),
          example_state STATES_COMMITTING, [])
   \<and> commit example_config all_resolve (example_state STATES_COMMITTING)
       = (Inl (InvalidTransition ''COMMITTING'' ''COMMITTING''),
          example_state STATES_COMMITTING, [])
   \<and> abort example_config all_resolve (example_state STATES_COMMITTING)
       = (Inl (InvalidTransition ''COMMITTING'' ''COMMITTING''),
          example_state STATES_COMMITTING, [])"
  using transition_table_rejects [of example_config "example_state STATES_COMMITTING" all_resolve]
  by (simp add: example_config_def example_state_def STATES_values_def STATES_defs)

subsection \<open>Commit and abort\<close>

lemma commit_in_transaction:
  assumes "transactional cfg" and "currentState st = STATES_TRANSACTING"
  shows "commit cfg env st =
     (let st1 = st\<lparr>currentState := STATES_COMMITTING\<rparr>;
          e1 = (FindGroupCoordinator (transactionalId cfg), st1);
          e2 = (EndTxn (producerId st) (producerEpoch st) (transactionalId cfg) True, st1)
      in if \<not> findGroupCoordinator_ok env then (Inl Rejected, st1, [e1])
         else if \<not> endTxn_ok env then (Inl Rejected, st1, [e1, e2])
         else (Inr (), st\<lparr>transactionTopicPartitions := [], currentState := STATES_READY\<rparr>,
               [e1, e2]))"
  using assms
  by (simp add: commit_def transactionalGuard_def transitionTo_cases coordinator_request_def
      STATES_defs Let_def)

lemma abort_in_transaction:
  assumes "transactional cfg" and "currentState st = STATES_TRANSACTING"
  shows "abort cfg env st =
     (let st1 = st\<lparr>currentState := STATES_ABORTING\<rparr>;
          e1 = (FindGroupCoordinator (transactionalId cfg), st1);
          e2 = (EndTxn (producerId st) (producerEpoch st) (transactionalId cfg) False, st1)
      in if \<not> findGroupCoordinator_ok env then (Inl Rejected, st1, [e1])
         else if \<not> endTxn_ok env then (Inl Rejected, st1, [e1, e2])
         else (Inr (), st\<lparr>transactionTopicPartitions := [], currentState := STATES_READY\<rparr>,
               [e1, e2]))"
  using assms
  by (simp add: abort_def transactionalGuard_def transitionTo_cases coordinator_request_def
      STATES_defs Let_def)

text \<open>
  C8. On a transactional manager in \<^verbatim>\<open>TRANSACTING\<close>, \<^verbatim>\<open>commit\<close> first stores
  \<^verbatim>\<open>STATES.COMMITTING\<close>: both requests it issues (the coordinator lookup, then the
  end-transaction request with \<^verbatim>\<open>transactionalResult: true\<close>) see that state. It reaches
  \<^verbatim>\<open>READY\<close>, with the enlisted partitions emptied, only when both resolve; when either is
  rejected the rejection is thrown and the state stays \<^verbatim>\<open>STATES.COMMITTING\<close>. \<^verbatim>\<open>abort\<close> does
  the same through \<^verbatim>\<open>STATES.ABORTING\<close> with \<^verbatim>\<open>transactionalResult: false\<close>.
\<close>

theorem commit_abort_lifecycle:
  assumes "transactional cfg" and "currentState st = STATES_TRANSACTING"
  shows "commit cfg env st =
     (let st1 = st\<lparr>currentState := STATES_COMMITTING\<rparr>;
          e1 = (FindGroupCoordinator (transactionalId cfg), st1);
          e2 = (EndTxn (producerId st) (producerEpoch st) (transactionalId cfg) True, st1)
      in if \<not> findGroupCoordinator_ok env then (Inl Rejected, st1, [e1])
         else if \<not> endTxn_ok env then (Inl Rejected, st1, [e1, e2])
         else (Inr (), st\<lparr>transactionTopicPartitions := [], currentState := STATES_READY\<rparr>,
               [e1, e2]))
   \<and> abort cfg env st =
     (let st1 = st\<lparr>currentState := STATES_ABORTING\<rparr>;
          e1 = (FindGroupCoordinator (transactionalId cfg), st1);
          e2 = (EndTxn (producerId st) (producerEpoch st) (transactionalId cfg) False, st1)
      in if \<not> findGroupCoordinator_ok env then (Inl Rejected, st1, [e1])
         else if \<not> endTxn_ok env then (Inl Rejected, st1, [e1, e2])
         else (Inr (), st\<lparr>transactionTopicPartitions := [], currentState := STATES_READY\<rparr>,
               [e1, e2]))"
  using assms commit_in_transaction [of cfg st env] abort_in_transaction [of cfg st env]
  by simp

theorem commit_abort_lifecycle_witness:
  "transactional example_config
   \<and> currentState (example_state STATES_TRANSACTING) = STATES_TRANSACTING
   \<and> result_of (commit example_config endTxn_rejected (example_state STATES_TRANSACTING))
       = Inl Rejected
   \<and> state_of (commit example_config endTxn_rejected (example_state STATES_TRANSACTING))
       = example_state STATES_COMMITTING
   \<and> commit example_config all_resolve (example_state STATES_TRANSACTING)
       = (Inr (), example_state STATES_READY,
          [(FindGroupCoordinator (Some ''tx-1''), example_state STATES_COMMITTING),
           (EndTxn 1000 0 (Some ''tx-1'') True, example_state STATES_COMMITTING)])
   \<and> state_of (abort example_config endTxn_rejected (example_state STATES_TRANSACTING))
       = example_state STATES_ABORTING
   \<and> abort example_config all_resolve (example_state STATES_TRANSACTING)
       = (Inr (), example_state STATES_READY,
          [(FindGroupCoordinator (Some ''tx-1''), example_state STATES_ABORTING),
           (EndTxn 1000 0 (Some ''tx-1'') False, example_state STATES_ABORTING)])"
  using commit_abort_lifecycle [of example_config "example_state STATES_TRANSACTING" endTxn_rejected]
    commit_abort_lifecycle [of example_config "example_state STATES_TRANSACTING" all_resolve]
  by (simp add: example_config_def example_state_def endTxn_rejected_def all_resolve_def
      outcome_defs Let_def)

text \<open>
  C2. The specification asks for five pairwise distinct lifecycle states, \<^verbatim>\<open>COMMITTING\<close> and
  \<^verbatim>\<open>ABORTING\<close> among them. In the module \<^verbatim>\<open>STATES.ABORTING\<close> is the string \<^verbatim>\<open>'COMMITTING'\<close>:
  the five properties of \<^verbatim>\<open>STATES\<close> have four values, and an \<^verbatim>\<open>abort\<close> and a \<^verbatim>\<open>commit\<close>
  whose end-transaction request is rejected leave the same current state.
\<close>

theorem ABORTING_collapses_into_COMMITTING:
  "STATES_ABORTING = STATES_COMMITTING
   \<and> \<not> distinct STATES_values
   \<and> currentState (state_of (abort example_config endTxn_rejected (example_state STATES_TRANSACTING)))
       = ''COMMITTING''
   \<and> currentState (state_of (commit example_config endTxn_rejected (example_state STATES_TRANSACTING)))
       = ''COMMITTING''"
  by (simp add: STATES_values_def abort_def commit_def transactionalGuard_def transitionTo_cases
      coordinator_request_def outcome_defs example_config_def example_state_def
      endTxn_rejected_def all_resolve_def STATES_defs)

subsection \<open>Sequence numbers\<close>

lemma getSequence_uninitialized:
  "producerId st = NO_PRODUCER_ID \<Longrightarrow> getSequence topic p st = (Inr (Some 0), st, [])"
  by (simp add: getSequence_def isInitialized_def SEQUENCE_START_def)

lemma updateSequence_uninitialized:
  "producerId st = NO_PRODUCER_ID \<Longrightarrow> updateSequence topic p increment st = (Inr (), st, [])"
  by (simp add: updateSequence_def isInitialized_def)

lemma attempts_uninitialized:
  "producerId st = NO_PRODUCER_ID \<Longrightarrow>
     foldl (\<lambda>s (topic, p, increment). state_of (updateSequence topic p increment s)) st attempts = st"
  by (induction attempts) (auto simp add: updateSequence_uninitialized state_of_def)

text \<open>
  C7. While \<^verbatim>\<open>producerId\<close> is the sentinel \<open>-1\<close>, \<^verbatim>\<open>getSequence\<close> returns 0 for every
  topic and partition and \<^verbatim>\<open>updateSequence\<close> returns without changing anything; so after
  any number of \<^verbatim>\<open>updateSequence\<close> attempts \<^verbatim>\<open>getSequence\<close> still returns 0 and the state
  is the one before the attempts.
\<close>

theorem sequences_before_initialization:
  assumes "producerId st = NO_PRODUCER_ID"
  shows "getSequence topic p st = (Inr (Some 0), st, [])
       \<and> updateSequence topic' p' increment st = (Inr (), st, [])
       \<and> getSequence topic p
            (foldl (\<lambda>s (t, q, n). state_of (updateSequence t q n s)) st attempts)
           = (Inr (Some 0), st, [])"
  using assms
  by (simp add: getSequence_uninitialized updateSequence_uninitialized attempts_uninitialized)

theorem sequences_before_initialization_witness:
  "producerId initial_state = NO_PRODUCER_ID
   \<and> getSequence ''t'' 0 initial_state = (Inr (Some 0), initial_state, [])
   \<and> updateSequence ''t'' 0 5 initial_state = (Inr (), initial_state, [])
   \<and> getSequence ''t'' 0
        (foldl (\<lambda>s (t, q, n). state_of (updateSequence t q n s)) initial_state
           [(''t'', 0, 5), (''u'', 1, 7)])
       = (Inr (Some 0), initial_state, [])"
proof -
  have uninitialized: "producerId initial_state = NO_PRODUCER_ID"
    by (simp add: initial_state_def)
  from uninitialized
    sequences_before_initialization
      [of initial_state "''t''" 0 "''t''" 0 5 "[(''t'', 0, 5), (''u'', 1, 7)]", OF uninitialized]
  show ?thesis by blast
qed













lemmas lookup_eval = get_property_def set_property_def inherited_def or_object_def
  Object_prototype_functions_def index_of_name_def is_decimal_def is_digit_def
  decimal_value_def digit_value_def or_empty_def




subsection \<open>Partition enlistment\<close>

lemma inherited_not_plain: "inherited st topic \<noteq> Some (Plain obj)"
  by (simp add: inherited_def split: option.splits)

lemma or_object_inherited:
  "or_object (inherited st topic) = Plain obj \<Longrightarrow> obj = []"
  by (cases "inherited st topic :: 'a holder option")
     (auto simp add: or_object_def inherited_not_plain split: holder.splits if_splits)

lemma no_marks_inherited:
  "(case or_object (inherited st topic) of
      Plain obj \<Rightarrow> (case map_of obj q of None \<Rightarrow> False | Some (b :: bool) \<Rightarrow> b)
    | _ \<Rightarrow> False) = False"
  by (auto simp add: inherited_def or_object_def split: option.splits if_splits)

lemma or_object_own:
  "or_object (Some h) = Plain obj \<Longrightarrow> h = Plain obj \<or> (h = Primitive 0 \<and> obj = [])"
  by (auto simp add: or_object_def split: holder.splits if_splits)

lemma get_property_Plain:
  "(get_property st tps topic = Some (Plain obj))
     = (topic \<noteq> ''__proto__'' \<and> map_of tps topic = Some (Plain obj))"
  by (simp add: get_property_def inherited_not_plain split: option.splits)

lemma is_enlisted_same_topic:
  "is_enlisted (AList.update topic h tps) topic q
     = (case h of Plain obj \<Rightarrow> (case map_of obj q of None \<Rightarrow> False | Some b \<Rightarrow> b) | _ \<Rightarrow> False)"
  by (simp add: is_enlisted_def update_conv')

lemma is_enlisted_other_topic:
  "t \<noteq> topic \<Longrightarrow> is_enlisted (AList.update topic h tps) t q = is_enlisted tps t q"
  by (simp add: is_enlisted_def update_conv')

lemma is_enlisted_set_property:
  "is_enlisted (set_property tps topic (or_object (get_property st tps topic))) t q
     = is_enlisted tps t q"
proof (cases "topic = ''__proto__'' \<or> t \<noteq> topic")
  case True
  then show ?thesis by (auto simp add: set_property_def is_enlisted_other_topic)
next
  case False
  then have topic: "topic \<noteq> ''__proto__''" and t: "t = topic" by simp_all
  show ?thesis
  proof (cases "map_of tps topic")
    case None
    then have "get_property st tps topic = inherited st topic"
      using topic by (simp add: get_property_def)
    then have "\<not> is_enlisted (AList.update topic (or_object (get_property st tps topic)) tps)
                 topic q"
      by (simp add: is_enlisted_same_topic no_marks_inherited)
    with None topic t show ?thesis by (simp add: set_property_def is_enlisted_def)
  next
    case (Some h)
    then have got: "get_property st tps topic = Some h"
      using topic by (simp add: get_property_def)
    have "is_enlisted (AList.update topic (or_object (Some h)) tps) topic q
            = is_enlisted tps topic q"
      using Some
      by (cases h) (simp_all add: is_enlisted_same_topic or_object_def,
        simp_all add: is_enlisted_def)
    with got topic t show ?thesis by (simp add: set_property_def)
  qed
qed

lemma forEach_topicData_keeps_enlisted:
  "is_enlisted (snd (forEach_topicData st td tps new)) t q = is_enlisted tps t q"
  by (induction st td tps new rule: forEach_topicData.induct)
     (simp_all add: Let_def is_enlisted_set_property split: sum.splits)

lemma is_enlisted_mark_one:
  assumes "is_enlisted
     (case get_property st tps topic of
        Some (Plain obj) \<Rightarrow> AList.update topic (Plain (AList.update p True obj)) tps
      | _ \<Rightarrow> tps) t q"
  shows "is_enlisted tps t q \<or> (t = topic \<and> q = p)"
proof (cases "\<exists>obj. get_property st tps topic = Some (Plain obj)")
  case False
  with assms show ?thesis by (auto split: option.splits holder.splits)
next
  case True
  then obtain obj where got: "get_property st tps topic = Some (Plain obj)" by blast
  then have own: "map_of tps topic = Some (Plain obj)" by (simp add: get_property_Plain)
  from assms got have
    "is_enlisted (AList.update topic (Plain (AList.update p True obj)) tps) t q" by simp
  with own show ?thesis
    by (cases "t = topic")
       (auto simp add: is_enlisted_same_topic is_enlisted_other_topic is_enlisted_def
          update_conv' split: if_splits)
qed

lemma is_enlisted_mark_one_keeps:
  assumes "is_enlisted tps t q"
  shows "is_enlisted
     (case get_property st tps topic of
        Some (Plain obj) \<Rightarrow> AList.update topic (Plain (AList.update p True obj)) tps
      | _ \<Rightarrow> tps) t q"
proof (cases "\<exists>obj. get_property st tps topic = Some (Plain obj)")
  case False
  with assms show ?thesis by (auto split: option.splits holder.splits)
next
  case True
  then obtain obj where got: "get_property st tps topic = Some (Plain obj)" by blast
  then have own: "map_of tps topic = Some (Plain obj)" by (simp add: get_property_Plain)
  with assms have
    "is_enlisted (AList.update topic (Plain (AList.update p True obj)) tps) t q"
    by (cases "t = topic")
       (auto simp add: is_enlisted_same_topic is_enlisted_other_topic is_enlisted_def
          update_conv' split: if_splits option.splits)
  with got show ?thesis by simp
qed

lemma mark_partitions_keeps:
  "is_enlisted tps t q \<Longrightarrow> is_enlisted (mark_partitions st topic ps tps) t q"
  by (induction ps arbitrary: tps) (simp_all add: is_enlisted_mark_one_keeps)

lemma mark_partitions_only:
  "is_enlisted (mark_partitions st topic ps tps) t q
     \<Longrightarrow> is_enlisted tps t q \<or> (t = topic \<and> q \<in> set ps)"
proof (induction ps arbitrary: tps)
  case Nil
  then show ?case by simp
next
  case (Cons p ps)
  from Cons.IH [OF Cons.prems [simplified]] is_enlisted_mark_one [where st = st and tps = tps and topic = topic and p = p and t = t and q = q]
  show ?case by auto
qed

lemma named_in_Cons:
  "named_in ((topic, ps) # rest) t q = ((t = topic \<and> q \<in> set ps) \<or> named_in rest t q)"
  by (auto simp add: named_in_def)

lemma named_in_Nil: "named_in [] t q = False"
  by (simp add: named_in_def)

lemma mark_topics_keeps:
  "is_enlisted tps t q \<Longrightarrow> is_enlisted (mark_topics st topics tps) t q"
  by (induction st topics tps rule: mark_topics.induct) (simp_all add: mark_partitions_keeps)

lemma mark_topics_only:
  "is_enlisted (mark_topics st topics tps) t q \<Longrightarrow> is_enlisted tps t q \<or> named_in topics t q"
proof (induction st topics tps rule: mark_topics.induct)
  case (1 st tps)
  then show ?case by simp
next
  case (2 st topic partitions rest tps)
  from "2.IH" [OF "2.prems" [simplified]] mark_partitions_only [of st topic partitions tps t q]
  show ?case by (auto simp add: named_in_Cons)
qed


lemma inherited_globals:
  assumes "prototype_numbers st' = prototype_numbers st"
  shows "inherited st' name = inherited st name"
  unfolding inherited_def assms by (rule refl)

lemma get_property_globals:
  assumes "prototype_numbers st' = prototype_numbers st"
  shows "get_property st' obj name = get_property st obj name"
  unfolding get_property_def inherited_globals [OF assms] by (rule refl)

lemma enlisted_at_globals:
  assumes "prototype_numbers st' = prototype_numbers st"
    and "function_numbers st' = function_numbers st"
  shows "enlisted_at st' h p = enlisted_at st h p"
  unfolding enlisted_at_def assms by (rule refl)

lemma push_partition_globals:
  assumes "prototype_numbers st' = prototype_numbers st"
  shows "push_partition st' new topic p = push_partition st new topic p"
  unfolding push_partition_def inherited_globals [OF assms] by (rule refl)

lemma forEach_partition_globals:
  assumes "prototype_numbers st' = prototype_numbers st"
    and "function_numbers st' = function_numbers st"
  shows "forEach_partition st' h topic ps new = forEach_partition st h topic ps new"
proof (induction ps arbitrary: new)
  case Nil
  show ?case by simp
next
  case (Cons p ps)
  then show ?case
    by (simp add: enlisted_at_globals [OF assms] push_partition_globals [OF assms(1)]
        split: sum.splits)
qed

lemma forEach_topicData_globals:
  assumes "prototype_numbers st' = prototype_numbers st"
    and "function_numbers st' = function_numbers st"
  shows "forEach_topicData st' td tps new = forEach_topicData st td tps new"
proof (induction td arbitrary: tps new)
  case Nil
  show ?case by simp
next
  case (Cons entry rest)
  obtain topic partitions where entry: "entry = (topic, partitions)" by (cases entry)
  show ?case
    by (simp add: entry Cons.IH get_property_globals [OF assms(1)]
        forEach_partition_globals [OF assms] Let_def split: sum.splits)
qed

lemma or_object_idem: "or_object (Some (or_object x)) = or_object x"
  by (simp add: or_object_def split: option.splits holder.splits)

lemma holder_after_set:
  "or_object (get_property st (set_property tps topic (or_object (get_property st tps topic)))
     name) = or_object (get_property st tps name)"
proof (cases "topic = ''__proto__'' \<or> name \<noteq> topic")
  case True
  then show ?thesis
    by (auto simp add: set_property_def get_property_def update_conv')
next
  case False
  then have "get_property st (set_property tps topic (or_object (get_property st tps topic)))
      name = Some (or_object (get_property st tps topic))"
    by (simp add: set_property_def get_property_def update_conv')
  with False show ?thesis by (simp add: or_object_idem)
qed

lemma forEach_topicData_holders:
  "or_object (get_property st (snd (forEach_topicData st td tps new)) name)
     = or_object (get_property st tps name)"
  by (induction st td tps new rule: forEach_topicData.induct)
     (simp_all add: Let_def holder_after_set split: sum.splits)

lemma forEach_topicData_same_holders:
  assumes "\<And>name. or_object (get_property st tps' name) = or_object (get_property st tps name)"
  shows "fst (forEach_topicData st td tps' new) = fst (forEach_topicData st td tps new)"
  using assms
proof (induction td arbitrary: tps tps' new)
  case Nil
  show ?case by simp
next
  case (Cons entry rest)
  obtain topic partitions where entry: "entry = (topic, partitions)" by (cases entry)
  let ?m = "\<lambda>x. set_property x topic (or_object (get_property st x topic))"
  have same: "or_object (get_property st (?m tps') name)
      = or_object (get_property st (?m tps) name)" for name
  proof -
    have "or_object (get_property st (?m tps') name) = or_object (get_property st tps' name)"
      by (rule holder_after_set)
    also have "\<dots> = or_object (get_property st tps name)" by (rule Cons.prems)
    also have "\<dots> = or_object (get_property st (?m tps) name)"
      by (rule holder_after_set [symmetric])
    finally show ?thesis .
  qed
  show ?case
    using Cons.IH [OF same] Cons.prems [of topic]
    by (simp add: entry Let_def split: sum.splits)
qed

lemma scanned_materialised: "fst (scanned td (materialised td st)) = fst (scanned td st)"
proof -
  have "forEach_topicData (materialised td st) td (snd (scanned td st)) []
          = forEach_topicData st td (snd (scanned td st)) []"
    by (rule forEach_topicData_globals) (simp_all add: materialised_def)
  moreover have "fst (forEach_topicData st td (snd (scanned td st)) [])
      = fst (forEach_topicData st td (transactionTopicPartitions st) [])"
    by (rule forEach_topicData_same_holders) (simp add: scanned_def forEach_topicData_holders)
  ultimately show ?thesis by (simp add: scanned_def materialised_def)
qed

lemma new_topics_materialised: "new_topics td (materialised td st) = new_topics td st"
  by (simp add: new_topics_def scanned_materialised)

lemma materialised_enlisted:
  "is_enlisted (transactionTopicPartitions (materialised td st)) t q
     = is_enlisted (transactionTopicPartitions st) t q"
  by (simp add: materialised_def scanned_def forEach_topicData_keeps_enlisted)

lemma materialised_fields:
  "producerId (materialised td st) = producerId st"
  "producerEpoch (materialised td st) = producerEpoch st"
  by (simp_all add: materialised_def)


lemma push_partition_error: "push_partition st new topic p = Inl err \<Longrightarrow> err = TypeError"
  by (auto simp add: push_partition_def split: if_splits option.splits holder.splits)

lemma forEach_partition_error:
  "forEach_partition st h topic ps new = Inl err \<Longrightarrow> err = TypeError"
proof (induction ps arbitrary: new)
  case Nil
  then show ?case by simp
next
  case (Cons p ps)
  then show ?case
    by (auto split: if_splits sum.splits dest: push_partition_error)
qed

lemma forEach_topicData_error:
  "fst (forEach_topicData st td tps new) = Inl err \<Longrightarrow> err = TypeError"
proof (induction st td tps new rule: forEach_topicData.induct)
  case (1 st tps new)
  then show ?case by simp
next
  case (2 st topic partitions rest tps new)
  then show ?case
    by (auto simp add: Let_def split: sum.splits dest: forEach_partition_error)
qed

lemma scanned_error: "fst (scanned td st) = Inl err \<Longrightarrow> err = TypeError"
  by (simp add: scanned_def forEach_topicData_error)

lemma addPartitionsToTransaction_cases:
  assumes "transactional cfg"
  shows "addPartitionsToTransaction cfg env td st =
     (case fst (scanned td st) of
        Inl err \<Rightarrow> (Inl err, materialised td st, [])
      | Inr new \<Rightarrow>
          let st1 = materialised td st;
              topics = new_topics td st;
              e1 = (FindGroupCoordinator (transactionalId cfg), st1);
              e2 = (AddPartitionsToTxn (transactionalId cfg) (producerId st) (producerEpoch st)
                      topics, st1)
          in if topics = [] then (Inr (), st1, [])
             else if \<not> findGroupCoordinator_ok env then (Inl Rejected, st1, [e1])
             else if \<not> addPartitionsToTxn_ok env then (Inl Rejected, st1, [e1, e2])
             else (Inr (),
                   st1\<lparr>transactionTopicPartitions :=
                         mark_topics st1 topics (transactionTopicPartitions st1)\<rparr>,
                   [e1, e2]))"
  using assms
  by (simp add: addPartitionsToTransaction_def transactionalGuard_def new_topics_def
      scanned_def materialised_def coordinator_request_def Let_def
      split: prod.splits sum.splits)

lemma addPartitionsToTransaction_requests:
  assumes "transactional cfg"
  shows "map fst (events_of (addPartitionsToTransaction cfg env td st)) =
     (if new_topics td st = [] then []
      else if \<not> findGroupCoordinator_ok env then [FindGroupCoordinator (transactionalId cfg)]
      else [FindGroupCoordinator (transactionalId cfg),
            AddPartitionsToTxn (transactionalId cfg) (producerId st) (producerEpoch st)
              (new_topics td st)])"
  using assms
  by (simp add: addPartitionsToTransaction_cases events_of_def Let_def new_topics_def
      split: sum.splits)

lemma addPartitionsToTransaction_snapshots:
  assumes "transactional cfg"
    and "ev \<in> set (events_of (addPartitionsToTransaction cfg env td st))"
  shows "snd ev = materialised td st"
  using assms
  by (auto simp add: addPartitionsToTransaction_cases events_of_def Let_def
      split: sum.splits if_splits)

lemma addPartitionsToTransaction_rejected_iff:
  assumes "transactional cfg"
  shows "(result_of (addPartitionsToTransaction cfg env td st) = Inl Rejected)
       = (events_of (addPartitionsToTransaction cfg env td st) \<noteq> []
          \<and> (\<not> findGroupCoordinator_ok env \<or> \<not> addPartitionsToTxn_ok env))"
  using assms
  by (auto simp add: addPartitionsToTransaction_cases outcome_defs Let_def
      split: sum.splits if_splits dest: scanned_error)

lemma addPartitionsToTransaction_state:
  assumes "transactional cfg"
  shows "state_of (addPartitionsToTransaction cfg env td st) = materialised td st
       \<or> (findGroupCoordinator_ok env \<and> addPartitionsToTxn_ok env
          \<and> state_of (addPartitionsToTransaction cfg env td st)
              = (materialised td st)\<lparr>transactionTopicPartitions :=
                  mark_topics (materialised td st) (new_topics td st)
                    (transactionTopicPartitions (materialised td st))\<rparr>)"
  using assms
  by (auto simp add: addPartitionsToTransaction_cases state_of_def Let_def
      split: sum.splits if_splits)

lemma addPartitionsToTransaction_keeps:
  assumes "is_enlisted (transactionTopicPartitions st) t q"
  shows "is_enlisted (transactionTopicPartitions
           (state_of (addPartitionsToTransaction cfg env td st))) t q"
proof (cases "transactional cfg")
  case False
  with assms show ?thesis
    by (simp add: addPartitionsToTransaction_def transactionalGuard_def state_of_def)
next
  case True
  from addPartitionsToTransaction_state [OF True, of env td st] assms show ?thesis
    by (auto simp add: materialised_enlisted mark_topics_keeps)
qed

lemma addPartitionsToTransaction_only_delta:
  assumes "transactional cfg"
    and "is_enlisted (transactionTopicPartitions
           (state_of (addPartitionsToTransaction cfg env td st))) t q"
  shows "is_enlisted (transactionTopicPartitions st) t q \<or> named_in (new_topics td st) t q"
proof -
  let ?st1 = "materialised td st"
  from addPartitionsToTransaction_state [OF assms(1), of env td st] assms(2)
  have "is_enlisted (transactionTopicPartitions ?st1) t q
      \<or> is_enlisted (mark_topics ?st1 (new_topics td st) (transactionTopicPartitions ?st1)) t q"
    by auto
  then have "is_enlisted (transactionTopicPartitions ?st1) t q
      \<or> named_in (new_topics td st) t q"
    using mark_topics_only [of ?st1 "new_topics td st" "transactionTopicPartitions ?st1" t q]
    by blast
  then show ?thesis by (simp add: materialised_enlisted)
qed

lemma addPartitionsToTransaction_unrecorded:
  assumes "transactional cfg"
    and "\<not> findGroupCoordinator_ok env \<or> \<not> addPartitionsToTxn_ok env"
  shows "is_enlisted (transactionTopicPartitions
           (state_of (addPartitionsToTransaction cfg env td st))) t q
         = is_enlisted (transactionTopicPartitions st) t q"
  using addPartitionsToTransaction_state [OF assms(1), of env td st] assms(2)
  by (auto simp add: materialised_enlisted)


lemma listed_in_Nil: "listed_in [] t q = False"
  by (simp add: listed_in_def)

lemma listed_in_push:
  assumes "push_partition st new topic p = Inr pushed"
  shows "listed_in pushed t q = (listed_in new t q \<or> (t = topic \<and> q = p))"
  using assms
  by (auto simp add: listed_in_def push_partition_def update_conv'
      split: if_splits option.splits holder.splits)

lemma listed_in_forEach_partition:
  assumes "forEach_partition st h topic ps new = Inr pushed"
  shows "listed_in pushed t q
     = (listed_in new t q \<or> (t = topic \<and> q \<in> set ps \<and> \<not> enlisted_at st h q))"
  using assms
proof (induction ps arbitrary: new)
  case Nil
  then show ?case by simp
next
  case (Cons p ps)
  show ?case
  proof (cases "enlisted_at st h p")
    case True
    with Cons show ?thesis by auto
  next
    case False
    with Cons.prems obtain mid where mid: "push_partition st new topic p = Inr mid"
      and rest: "forEach_partition st h topic ps mid = Inr pushed"
      by (auto split: sum.splits)
    from Cons.IH [OF rest] listed_in_push [OF mid, of t q] False show ?thesis by auto
  qed
qed

lemma listed_in_forEach_topicData:
  assumes "fst (forEach_topicData st td tps new) = Inr pushed"
  shows "listed_in pushed t q
     = (listed_in new t q
        \<or> (named_in td t q \<and> \<not> enlisted_at st (or_object (get_property st tps t)) q))"
  using assms
proof (induction td arbitrary: tps new)
  case Nil
  then show ?case by (simp add: named_in_Nil)
next
  case (Cons entry rest)
  obtain topic partitions where entry: "entry = (topic, partitions)" by (cases entry)
  let ?h = "or_object (get_property st tps topic)"
  let ?tps1 = "set_property tps topic ?h"
  from Cons.prems entry obtain mid where
    mid: "forEach_partition st ?h topic partitions new = Inr mid"
    and rest: "fst (forEach_topicData st rest ?tps1 mid) = Inr pushed"
    by (auto simp add: Let_def split: sum.splits)
  have "listed_in pushed t q
      = (listed_in mid t q
         \<or> (named_in rest t q \<and> \<not> enlisted_at st (or_object (get_property st ?tps1 t)) q))"
    by (rule Cons.IH [OF rest])
  also have "or_object (get_property st ?tps1 t) = or_object (get_property st tps t)"
    by (rule holder_after_set)
  finally show ?case
    using listed_in_forEach_partition [OF mid, of t q]
    by (auto simp add: entry named_in_Cons)
qed

lemma set_Object_keys: "set (Object_keys obj) = fst ` set obj"
  by (auto simp add: Object_keys_def)

lemma named_in_topics_of: "named_in (topics_of new) t q = listed_in new t q"
proof (cases "map_of new t")
  case None
  then have "t \<notin> fst ` set new" by (simp add: map_of_eq_None_iff)
  with None show ?thesis
    by (auto simp add: named_in_def topics_of_def listed_in_def list_ex_iff set_Object_keys)
next
  case (Some ps)
  then have "(t, ps) \<in> set new" by (rule map_of_SomeD)
  then have "t \<in> fst ` set new" by force
  with Some show ?thesis
    by (auto simp add: named_in_def topics_of_def listed_in_def list_ex_iff set_Object_keys)
qed

lemma new_topics_pairs:
  "named_in (new_topics td st) t q
     = (\<exists>new. fst (scanned td st) = Inr new \<and> named_in td t q
          \<and> \<not> enlisted_at st (or_object (get_property st (transactionTopicPartitions st) t)) q)"
proof (cases "fst (scanned td st)")
  case (Inl err)
  then show ?thesis by (simp add: new_topics_def named_in_Nil)
next
  case (Inr new)
  then have "fst (forEach_topicData st td (transactionTopicPartitions st) []) = Inr new"
    by (simp add: scanned_def)
  from listed_in_forEach_topicData [OF this, of t q] Inr show ?thesis
    by (simp add: new_topics_def named_in_topics_of listed_in_Nil)
qed

lemma new_topics_named: "named_in (new_topics td st) t q \<Longrightarrow> named_in td t q"
  by (auto simp add: new_topics_pairs)


lemma transitionTo_effect:
  "transitionTo target st
     = (Inr (), st\<lparr>transactionTopicPartitions :=
                      (if target = STATES_READY then [] else transactionTopicPartitions st),
                    currentState := target\<rparr>)
   \<or> (\<exists>err. transitionTo target st = (Inl err, st))"
  by (simp add: transitionTo_def transition_listener_def split: option.splits)

lemma transitionTo_enlisted:
  "(fst (transitionTo target st) = Inr () \<and> target = STATES_READY \<longrightarrow>
      transactionTopicPartitions (snd (transitionTo target st)) = [])
   \<and> (fst (transitionTo target st) \<noteq> Inr () \<or> target \<noteq> STATES_READY \<longrightarrow>
      transactionTopicPartitions (snd (transitionTo target st)) = transactionTopicPartitions st)"
  using transitionTo_effect [of target st] by auto

lemma initProducerId_enlisted:
  "(result_of (initProducerId cfg env st) = Inr () \<longrightarrow>
      currentState (state_of (initProducerId cfg env st)) = STATES_READY
      \<and> transactionTopicPartitions (state_of (initProducerId cfg env st)) = [])
   \<and> (result_of (initProducerId cfg env st) \<noteq> Inr () \<longrightarrow>
      state_of (initProducerId cfg env st) = st)"
  using transitionTo_effect [of STATES_READY st]
  by (auto simp add: initProducerId_def outcome_defs Let_def split: option.splits)

lemma commit_enlisted:
  "(result_of (commit cfg env st) = Inr () \<longrightarrow>
      currentState (state_of (commit cfg env st)) = STATES_READY
      \<and> transactionTopicPartitions (state_of (commit cfg env st)) = [])
   \<and> (result_of (commit cfg env st) \<noteq> Inr () \<longrightarrow>
      transactionTopicPartitions (state_of (commit cfg env st)) = transactionTopicPartitions st)"
  by (simp add: commit_def transactionalGuard_def transitionTo_cases outcome_defs Let_def
      STATES_defs)

lemma abort_enlisted:
  "(result_of (abort cfg env st) = Inr () \<longrightarrow>
      currentState (state_of (abort cfg env st)) = STATES_READY
      \<and> transactionTopicPartitions (state_of (abort cfg env st)) = [])
   \<and> (result_of (abort cfg env st) \<noteq> Inr () \<longrightarrow>
      transactionTopicPartitions (state_of (abort cfg env st)) = transactionTopicPartitions st)"
  by (simp add: abort_def transactionalGuard_def transitionTo_cases outcome_defs Let_def
      STATES_defs)

lemma beginTransaction_enlisted:
  "transactionTopicPartitions (state_of (beginTransaction cfg st)) = transactionTopicPartitions st"
  by (simp add: beginTransaction_def transactionalGuard_def transitionTo_cases outcome_defs
      STATES_defs)

lemma put_number_enlisted:
  "transactionTopicPartitions (put_number topic h p v st) = transactionTopicPartitions st"
  by (simp add: put_number_def split: holder.splits)

lemma getSequence_enlisted:
  "transactionTopicPartitions (state_of (getSequence topic p st)) = transactionTopicPartitions st"
  by (simp add: getSequence_def outcome_defs Let_def put_number_enlisted)

lemma updateSequence_enlisted:
  "transactionTopicPartitions (state_of (updateSequence topic p n st))
     = transactionTopicPartitions st"
proof (cases "getSequence topic p st")
  case (fields r st1 evs)
  then have "transactionTopicPartitions st1 = transactionTopicPartitions st"
    using getSequence_enlisted [of topic p st] by (simp add: state_of_def)
  with fields show ?thesis
    by (simp add: updateSequence_def outcome_defs Let_def put_number_enlisted
        split: sum.splits option.splits)
qed

text \<open>
  C5. A \<^verbatim>\<open>transitionTo\<close> that succeeds with target \<^verbatim>\<open>READY\<close> leaves
  \<^verbatim>\<open>transactionTopicPartitions\<close> empty, and any other one leaves it as it was. Among the
  operations, \<^verbatim>\<open>initProducerId\<close>, \<^verbatim>\<open>commit\<close> and \<^verbatim>\<open>abort\<close> end in \<^verbatim>\<open>READY\<close> with nothing
  enlisted when they return, and keep what was enlisted when they throw;
  \<^verbatim>\<open>beginTransaction\<close>, \<^verbatim>\<open>getSequence\<close> and \<^verbatim>\<open>updateSequence\<close> never change it; and
  \<^verbatim>\<open>addPartitionsToTransaction\<close> never removes an enlisted pair.
\<close>

theorem enlistment_cleared_on_READY:
  "(fst (transitionTo target st) = Inr () \<and> target = STATES_READY \<longrightarrow>
      transactionTopicPartitions (snd (transitionTo target st)) = [])
   \<and> (fst (transitionTo target st) \<noteq> Inr () \<or> target \<noteq> STATES_READY \<longrightarrow>
      transactionTopicPartitions (snd (transitionTo target st)) = transactionTopicPartitions st)
   \<and> (result_of (initProducerId cfg env st) = Inr () \<longrightarrow>
      currentState (state_of (initProducerId cfg env st)) = STATES_READY
      \<and> transactionTopicPartitions (state_of (initProducerId cfg env st)) = [])
   \<and> (result_of (initProducerId cfg env st) \<noteq> Inr () \<longrightarrow>
      state_of (initProducerId cfg env st) = st)
   \<and> (result_of (commit cfg env st) = Inr () \<longrightarrow>
      currentState (state_of (commit cfg env st)) = STATES_READY
      \<and> transactionTopicPartitions (state_of (commit cfg env st)) = [])
   \<and> (result_of (commit cfg env st) \<noteq> Inr () \<longrightarrow>
      transactionTopicPartitions (state_of (commit cfg env st)) = transactionTopicPartitions st)
   \<and> (result_of (abort cfg env st) = Inr () \<longrightarrow>
      currentState (state_of (abort cfg env st)) = STATES_READY
      \<and> transactionTopicPartitions (state_of (abort cfg env st)) = [])
   \<and> (result_of (abort cfg env st) \<noteq> Inr () \<longrightarrow>
      transactionTopicPartitions (state_of (abort cfg env st)) = transactionTopicPartitions st)
   \<and> transactionTopicPartitions (state_of (beginTransaction cfg st))
       = transactionTopicPartitions st
   \<and> transactionTopicPartitions (state_of (getSequence topic p st))
       = transactionTopicPartitions st
   \<and> transactionTopicPartitions (state_of (updateSequence topic p n st))
       = transactionTopicPartitions st
   \<and> (is_enlisted (transactionTopicPartitions st) t q \<longrightarrow>
        is_enlisted (transactionTopicPartitions
          (state_of (addPartitionsToTransaction cfg env td st))) t q)"
  using transitionTo_enlisted [of target st] initProducerId_enlisted [of cfg env st]
    commit_enlisted [of cfg env st] abort_enlisted [of cfg env st]
    beginTransaction_enlisted [of cfg st] getSequence_enlisted [of topic p st]
    updateSequence_enlisted [of topic p n st]
    addPartitionsToTransaction_keeps [of st t q cfg env td]
  by blast


lemmas example_defs = example_config_def example_state_def all_resolve_def
  addPartitionsToTxn_rejected_def enlisted_t0_def

theorem enlistment_cleared_on_READY_witness:
  "result_of (commit example_config all_resolve enlisted_t0) = Inr ()
   \<and> is_enlisted (transactionTopicPartitions enlisted_t0) ''t'' 0
   \<and> currentState (state_of (commit example_config all_resolve enlisted_t0)) = STATES_READY
   \<and> transactionTopicPartitions (state_of (commit example_config all_resolve enlisted_t0)) = []
   \<and> result_of (commit example_config endTxn_rejected enlisted_t0) \<noteq> Inr ()
   \<and> transactionTopicPartitions (state_of (commit example_config endTxn_rejected enlisted_t0))
       = [(''t'', Plain [(0, True)])]"
proof -
  have resolved: "result_of (commit example_config all_resolve enlisted_t0) = Inr ()"
    and rejected: "result_of (commit example_config endTxn_rejected enlisted_t0) \<noteq> Inr ()"
    by (simp_all add: commit_def transactionalGuard_def transitionTo_cases outcome_defs
        coordinator_request_def example_defs endTxn_rejected_def STATES_defs Let_def)
  have before: "transactionTopicPartitions enlisted_t0 = [(''t'', Plain [(0, True)])]"
    and enlisted: "is_enlisted (transactionTopicPartitions enlisted_t0) ''t'' 0"
    by (simp_all add: enlisted_t0_def is_enlisted_def)
  from resolved rejected before enlisted
    enlistment_cleared_on_READY
      [where cfg = example_config and env = all_resolve and st = enlisted_t0]
    enlistment_cleared_on_READY
      [where cfg = example_config and env = endTxn_rejected and st = enlisted_t0]
  show ?thesis by metis
qed



lemma addPartitionsToTransaction_retry:
  assumes "transactional cfg"
    and "result_of (addPartitionsToTransaction cfg env td st) = Inl Rejected"
  shows "new_topics td (state_of (addPartitionsToTransaction cfg env td st)) = new_topics td st
       \<and> map fst (events_of (addPartitionsToTransaction cfg env' td
             (state_of (addPartitionsToTransaction cfg env td st))))
           = map fst (events_of (addPartitionsToTransaction cfg env' td st))"
proof -
  from assms(2) have "\<not> findGroupCoordinator_ok env \<or> \<not> addPartitionsToTxn_ok env"
    by (simp add: addPartitionsToTransaction_rejected_iff [OF assms(1)])
  with addPartitionsToTransaction_state [OF assms(1), of env td st]
  have "state_of (addPartitionsToTransaction cfg env td st) = materialised td st" by blast
  then show ?thesis
    by (simp add: addPartitionsToTransaction_requests [OF assms(1)] new_topics_materialised
        materialised_fields)
qed

lemma addPartitionsToTransaction_recorded:
  assumes "transactional cfg"
    and "is_enlisted (transactionTopicPartitions
           (state_of (addPartitionsToTransaction cfg env td st))) t q"
    and "\<not> is_enlisted (transactionTopicPartitions st) t q"
  shows "named_in td t q
       \<and> map fst (events_of (addPartitionsToTransaction cfg env td st))
           = [FindGroupCoordinator (transactionalId cfg),
              AddPartitionsToTxn (transactionalId cfg) (producerId st) (producerEpoch st)
                (new_topics td st)]
       \<and> findGroupCoordinator_ok env \<and> addPartitionsToTxn_ok env"
proof -
  from addPartitionsToTransaction_only_delta [OF assms(1,2)] assms(3)
  have delta: "named_in (new_topics td st) t q" by blast
  then have nonempty: "new_topics td st \<noteq> []" by (auto simp add: named_in_Nil)
  have ok: "findGroupCoordinator_ok env \<and> addPartitionsToTxn_ok env"
    using addPartitionsToTransaction_unrecorded [OF assms(1), of env td st t q] assms(2,3)
    by blast
  from delta nonempty ok show ?thesis
    by (simp add: addPartitionsToTransaction_requests [OF assms(1)] new_topics_named)
qed

text \<open>
  C3. On a transactional manager, for every argument and state:
  \<^item> the state seen by every request that \<^verbatim>\<open>addPartitionsToTransaction\<close> issues records
    exactly the pairs recorded before the call;
  \<^item> when the coordinator lookup or the enlistment request is rejected, the state the
    call leaves records exactly the pairs recorded before the call;
  \<^item> the call throws the rejection exactly when it issued a request and one of the two
    is rejected; then the delta computed from the state it leaves is the delta computed
    before, and a second call issues the requests a first call would issue;
  \<^item> a pair recorded by the call and not before is named by the argument, and then the
    lookup and the enlistment request carrying the delta were both issued and resolved.
\<close>

theorem enlistment_only_after_success:
  assumes "transactional cfg"
  shows "(let out = addPartitionsToTransaction cfg env td st in
      (\<forall>ev\<in>set (events_of out). \<forall>t q.
          is_enlisted (transactionTopicPartitions (snd ev)) t q
            = is_enlisted (transactionTopicPartitions st) t q)
    \<and> (\<not> findGroupCoordinator_ok env \<or> \<not> addPartitionsToTxn_ok env \<longrightarrow>
          (\<forall>t q. is_enlisted (transactionTopicPartitions (state_of out)) t q
                   = is_enlisted (transactionTopicPartitions st) t q))
    \<and> ((result_of out = Inl Rejected)
         = (events_of out \<noteq> []
            \<and> (\<not> findGroupCoordinator_ok env \<or> \<not> addPartitionsToTxn_ok env)))
    \<and> (result_of out = Inl Rejected \<longrightarrow>
          new_topics td (state_of out) = new_topics td st
          \<and> map fst (events_of (addPartitionsToTransaction cfg env' td (state_of out)))
              = map fst (events_of (addPartitionsToTransaction cfg env' td st)))
    \<and> (\<forall>t q. is_enlisted (transactionTopicPartitions (state_of out)) t q
               \<and> \<not> is_enlisted (transactionTopicPartitions st) t q \<longrightarrow>
          named_in td t q
          \<and> map fst (events_of out)
              = [FindGroupCoordinator (transactionalId cfg),
                 AddPartitionsToTxn (transactionalId cfg) (producerId st) (producerEpoch st)
                   (new_topics td st)]
          \<and> findGroupCoordinator_ok env \<and> addPartitionsToTxn_ok env))"
proof -
  let ?out = "addPartitionsToTransaction cfg env td st"
  have snapshots: "\<forall>ev\<in>set (events_of ?out). \<forall>t q.
      is_enlisted (transactionTopicPartitions (snd ev)) t q
        = is_enlisted (transactionTopicPartitions st) t q"
    using addPartitionsToTransaction_snapshots [OF assms]
    by (simp add: materialised_enlisted)
  have unrecorded: "\<not> findGroupCoordinator_ok env \<or> \<not> addPartitionsToTxn_ok env \<longrightarrow>
      (\<forall>t q. is_enlisted (transactionTopicPartitions (state_of ?out)) t q
               = is_enlisted (transactionTopicPartitions st) t q)"
    using addPartitionsToTransaction_unrecorded [OF assms] by blast
  have retry: "result_of ?out = Inl Rejected \<longrightarrow>
      new_topics td (state_of ?out) = new_topics td st
      \<and> map fst (events_of (addPartitionsToTransaction cfg env' td (state_of ?out)))
          = map fst (events_of (addPartitionsToTransaction cfg env' td st))"
    using addPartitionsToTransaction_retry [OF assms] by blast
  have recorded: "\<forall>t q. is_enlisted (transactionTopicPartitions (state_of ?out)) t q
               \<and> \<not> is_enlisted (transactionTopicPartitions st) t q \<longrightarrow>
          named_in td t q
          \<and> map fst (events_of ?out)
              = [FindGroupCoordinator (transactionalId cfg),
                 AddPartitionsToTxn (transactionalId cfg) (producerId st) (producerEpoch st)
                   (new_topics td st)]
          \<and> findGroupCoordinator_ok env \<and> addPartitionsToTxn_ok env"
    using addPartitionsToTransaction_recorded [OF assms] by blast
  from snapshots unrecorded addPartitionsToTransaction_rejected_iff [OF assms, of env td st]
    retry recorded
  show ?thesis unfolding Let_def by blast
qed


lemmas enlist_eval = addPartitionsToTransaction_def transactionalGuard_def topics_of_def
  Object_keys_def is_array_index_def push_partition_def enlisted_at_def truthy_number_def
  coordinator_request_def new_topics_def scanned_def Let_def

lemma example_rejected:
  "addPartitionsToTransaction example_config addPartitionsToTxn_rejected [(''t'', [0])]
     (example_state STATES_TRANSACTING)
   = (Inl Rejected,
      (example_state STATES_TRANSACTING)\<lparr>transactionTopicPartitions := [(''t'', Plain [])]\<rparr>,
      [(FindGroupCoordinator (Some ''tx-1''),
        (example_state STATES_TRANSACTING)\<lparr>transactionTopicPartitions := [(''t'', Plain [])]\<rparr>),
       (AddPartitionsToTxn (Some ''tx-1'') 1000 0 [(''t'', [0])],
        (example_state STATES_TRANSACTING)\<lparr>transactionTopicPartitions := [(''t'', Plain [])]\<rparr>)])"
  by (simp add: example_defs enlist_eval lookup_eval)

lemma example_resolved:
  "addPartitionsToTransaction example_config all_resolve [(''t'', [0])]
     (example_state STATES_TRANSACTING)
   = (Inr (), enlisted_t0,
      [(FindGroupCoordinator (Some ''tx-1''),
        (example_state STATES_TRANSACTING)\<lparr>transactionTopicPartitions := [(''t'', Plain [])]\<rparr>),
       (AddPartitionsToTxn (Some ''tx-1'') 1000 0 [(''t'', [0])],
        (example_state STATES_TRANSACTING)\<lparr>transactionTopicPartitions := [(''t'', Plain [])]\<rparr>)])"
  by (simp add: example_defs enlist_eval lookup_eval)

lemma example_new_topics:
  "new_topics [(''t'', [0])] (example_state STATES_TRANSACTING) = [(''t'', [0])]"
  by (simp add: example_defs enlist_eval lookup_eval)

theorem enlistment_only_after_success_witness:
  "transactional example_config
   \<and> \<not> addPartitionsToTxn_ok addPartitionsToTxn_rejected
   \<and> result_of (addPartitionsToTransaction example_config addPartitionsToTxn_rejected
        [(''t'', [0])] (example_state STATES_TRANSACTING)) = Inl Rejected
   \<and> \<not> is_enlisted (transactionTopicPartitions (state_of
        (addPartitionsToTransaction example_config addPartitionsToTxn_rejected
           [(''t'', [0])] (example_state STATES_TRANSACTING)))) ''t'' 0
   \<and> new_topics [(''t'', [0])] (state_of
        (addPartitionsToTransaction example_config addPartitionsToTxn_rejected
           [(''t'', [0])] (example_state STATES_TRANSACTING))) = [(''t'', [0])]"
proof -
  have transactional: "transactional example_config"
    by (simp add: example_config_def)
  have fails: "\<not> addPartitionsToTxn_ok addPartitionsToTxn_rejected"
    by (simp add: addPartitionsToTxn_rejected_def)
  have rejected: "result_of (addPartitionsToTransaction example_config
      addPartitionsToTxn_rejected [(''t'', [0])] (example_state STATES_TRANSACTING))
      = Inl Rejected"
    by (simp add: example_rejected result_of_def)
  have before: "\<not> is_enlisted (transactionTopicPartitions (example_state STATES_TRANSACTING))
      ''t'' 0"
    by (simp add: example_state_def is_enlisted_def)
  from enlistment_only_after_success
         [OF transactional, of addPartitionsToTxn_rejected "[(''t'', [0])]"
            "example_state STATES_TRANSACTING" all_resolve]
    transactional fails rejected before example_new_topics
  show ?thesis unfolding Let_def by metis
qed

end
